theory Spec2Isabelle
  imports Main "HOL-Library.Word"
begin

section \<open>JavaScript values\<close>

text \<open>
  The handlers of \<^verbatim>\<open>server/api/users\<close> are modelled as functions from an event, the
  environment of the call and the server state (the files on disk and the user table) to a
  response and the state afterwards. A \<^verbatim>\<open>Buffer\<close> is a list of bytes. A value
  that may be \<^verbatim>\<open>undefined\<close> or \<^verbatim>\<open>null\<close> is an option.
\<close>

type_synonym byte = "8 word"

type_synonym Buffer = "byte list"

text \<open>Truthiness: the empty string is falsy, every object is truthy, also an empty Buffer.\<close>

definition truthy_string :: "string \<Rightarrow> bool" where
  "truthy_string s = (s \<noteq> [])"

definition truthy_Buffer :: "Buffer \<Rightarrow> bool" where
  "truthy_Buffer b = True"

text \<open>\<^verbatim>\<open>v || d\<close> for a string \<^verbatim>\<open>v\<close> that may be undefined or null.\<close>

definition or_else :: "string option \<Rightarrow> string \<Rightarrow> string" where
  "or_else v d = (case v of None \<Rightarrow> d | Some x \<Rightarrow> if truthy_string x then x else d)"

section \<open>node:path (POSIX)\<close>

text \<open>
  \<^verbatim>\<open>path.join\<close> concatenates its non-empty arguments with \<^verbatim>\<open>/\<close> and normalizes
  the result: empty and \<^verbatim>\<open>.\<close> segments are dropped, a \<^verbatim>\<open>..\<close> segment removes
  the segment before it (or is kept in front of a relative path), a leading and a trailing
  separator are preserved, and the empty result is \<^verbatim>\<open>.\<close>.
\<close>

fun split_sep :: "string \<Rightarrow> string list" where
  "split_sep [] = [[]]"
| "split_sep (c # cs) =
     (if c = CHR ''/'' then [] # split_sep cs
      else (case split_sep cs of [] \<Rightarrow> [[c]] | s # ss \<Rightarrow> (c # s) # ss))"

fun join_sep :: "string list \<Rightarrow> string" where
  "join_sep [] = []"
| "join_sep [s] = s"
| "join_sep (s # t # ss) = s @ CHR ''/'' # join_sep (t # ss)"

definition normalize_segment :: "bool \<Rightarrow> string list \<Rightarrow> string \<Rightarrow> string list" where
  "normalize_segment allowAboveRoot res seg =
     (if seg = [] \<or> seg = ''.'' then res
      else if seg = ''..'' then
        (if res \<noteq> [] \<and> last res \<noteq> ''..'' then butlast res
         else if allowAboveRoot then res @ [''..''] else res)
      else res @ [seg])"

definition normalizeString :: "string \<Rightarrow> bool \<Rightarrow> string" where
  "normalizeString path allowAboveRoot =
     join_sep (foldl (normalize_segment allowAboveRoot) [] (split_sep path))"

definition path_normalize :: "string \<Rightarrow> string" where
  "path_normalize path =
     (if path = [] then ''.''
      else
        let isAbsolute = (hd path = CHR ''/'');
            trailingSeparator = (last path = CHR ''/'');
            p = normalizeString path (\<not> isAbsolute)
        in if p = [] then (if isAbsolute then ''/'' else if trailingSeparator then ''./'' else ''.'')
           else
             let q = (if trailingSeparator then p @ ''/'' else p)
             in if isAbsolute then CHR ''/'' # q else q)"

definition path_join :: "string list \<Rightarrow> string" where
  "path_join args =
     (let parts = filter (\<lambda>a. a \<noteq> []) args
      in if parts = [] then ''.'' else path_normalize (join_sep parts))"

section \<open>The server state: node:fs and the user table\<close>

datatype node = File Buffer | Dir

record user =
  user_id :: string
  user_email :: string
  user_name :: string
  user_emailVerified :: bool
  user_image :: "string option"

text \<open>
  The state: the entries on disk by path, the rows of the user table, and the writes that
  \<^verbatim>\<open>fs.writeFile\<close> has started and that have not come to their end, oldest first.
\<close>

record server =
  files :: "string \<rightharpoonup> node"
  users :: "user list"
  pending :: "(string \<times> Buffer) list"

text \<open>
  What a call reads from outside the state: the environment variable that names the
  storage root, the identifier \<^verbatim>\<open>crypto.randomUUID()\<close> returns, and whether the
  operating system fails \<^verbatim>\<open>mkdirSync\<close>, and if so after how many of the parent
  directories it has created.
\<close>

record env =
  UPLOAD_STORAGE_PATH :: "string option"
  randomUUID :: string
  mkdir_error :: "nat option"

definition existsSync :: "server \<Rightarrow> string \<Rightarrow> bool" where
  "existsSync s p = (files s p \<noteq> None)"

text \<open>The prefixes of a path that end before a separator: its parent directories.\<close>

definition parents :: "string \<Rightarrow> string list" where
  "parents p =
     filter (\<lambda>q. q \<noteq> [])
       (map (\<lambda>k. take k p) (filter (\<lambda>k. p ! k = CHR ''/'') [0..<length p]))"

text \<open>Creating the directories of a list, outermost first, where nothing exists yet.\<close>

definition create_dirs :: "string list \<Rightarrow> (string \<rightharpoonup> node) \<Rightarrow> (string \<rightharpoonup> node)" where
  "create_dirs ds m = foldl (\<lambda>m d. if m d = None then m(d \<mapsto> Dir) else m) m ds"

text \<open>
  \<^verbatim>\<open>fs.mkdirSync(p, { recursive: true })\<close> creates \<^verbatim>\<open>p\<close> and its parents. When it
  throws, the parents it has created by then stay; \<^verbatim>\<open>p\<close> itself is not created.
\<close>

definition mkdirSync :: "env \<Rightarrow> string \<Rightarrow> server \<Rightarrow> (string \<times> server) + server" where
  "mkdirSync e p s =
     (case mkdir_error e of
        Some k \<Rightarrow> Inl (''mkdir failed'', s\<lparr>files := create_dirs (take k (parents p)) (files s)\<rparr>)
      | None \<Rightarrow> Inr (s\<lparr>files := create_dirs (parents p @ [p]) (files s)\<rparr>))"

text \<open>
  \<^verbatim>\<open>fs.writeFile(p, data, callback)\<close> of \<^verbatim>\<open>fs\<close> (not \<^verbatim>\<open>fs/promises\<close>)
  returns \<^verbatim>\<open>undefined\<close> at once and reports the outcome to the callback only. The
  handler awaits that \<^verbatim>\<open>undefined\<close> and goes on, so the call does no more than
  start the write: nothing is on disk when it returns, and the handler never learns how
  the write ends.
\<close>

definition writeFile :: "string \<Rightarrow> Buffer \<Rightarrow> server \<Rightarrow> server" where
  "writeFile p d s = s\<lparr>pending := pending s @ [(p, d)]\<rparr>"

text \<open>
  What a started write does later, on its own: it opens the file, which creates it with
  no bytes, and has written some of the bytes (\<^verbatim>\<open>Opened n\<close>, the write still going
  on); it ends with all bytes written (\<^verbatim>\<open>Completed\<close>); the open is refused and no
  file is created (\<^verbatim>\<open>OpenFailed\<close>); or it fails after the open and leaves the bytes
  written until then (\<^verbatim>\<open>WriteFailed n\<close>). On a failure the callback throws the
  error, outside the handler's promise: no response changes and nothing is undone.
\<close>

datatype write_progress = Opened nat | Completed | OpenFailed | WriteFailed nat

text \<open>The write at position \<^verbatim>\<open>k\<close> of the pending ones makes the given progress.\<close>

definition write_event :: "write_progress \<Rightarrow> nat \<Rightarrow> server \<Rightarrow> server" where
  "write_event pr k s =
     (if k < length (pending s) then
        let p = fst (pending s ! k);
            d = snd (pending s ! k);
            others = take k (pending s) @ drop (Suc k) (pending s)
        in (case pr of
              Opened n \<Rightarrow> s\<lparr>files := (files s)(p \<mapsto> File (take n d))\<rparr>
            | Completed \<Rightarrow> s\<lparr>files := (files s)(p \<mapsto> File d), pending := others\<rparr>
            | OpenFailed \<Rightarrow> s\<lparr>pending := others\<rparr>
            | WriteFailed n \<Rightarrow> s\<lparr>files := (files s)(p \<mapsto> File (take n d)), pending := others\<rparr>)
      else s)"

definition findUnique :: "server \<Rightarrow> string \<Rightarrow> user option" where
  "findUnique s i = find (\<lambda>u. user_id u = i) (users s)"

definition findMany :: "server \<Rightarrow> user list" where
  "findMany s = users s"

text \<open>\<^verbatim>\<open>prisma.user.update\<close> sets the image of the row with the given id, and throws when there is none.\<close>

definition user_update :: "string \<Rightarrow> string \<Rightarrow> server \<Rightarrow> string + server" where
  "user_update i p s =
     (if findUnique s i = None then Inl ''record to update not found''
      else Inr (s\<lparr>users :=
        map (\<lambda>u. if user_id u = i then u\<lparr>user_image := Some p\<rparr> else u) (users s)\<rparr>))"

section \<open>Events and responses\<close>

datatype session = Session (session_user_id: string)

record MultiPartData =
  name :: "string option"
  filename :: "string option"
  data :: Buffer

text \<open>
  An event, as the handlers read it: the session \<^verbatim>\<open>auth.api.getSession\<close> finds for its
  headers, the router parameter \<^verbatim>\<open>id\<close>, and the multipart form data of its body.
\<close>

record event =
  getSession :: "session option"
  getRouterParam_id :: "string option"
  readMultipartFormData :: "MultiPartData list option"

record redacted_user =
  r_id :: string
  r_email :: string
  r_name :: string
  r_emailVerified :: bool
  r_image :: bool

text \<open>
  A response: an error of \<^verbatim>\<open>createError\<close> (or an exception the handler lets through,
  answered 500) with its status code and message, a streamed body with its content type
  (status 200), the message of the upload (status 201), or the user list (status 200).
\<close>

datatype response =
  Failure nat string
| Stream string Buffer
| Created string
| UserList "redacted_user list"

fun statusCode :: "response \<Rightarrow> nat" where
  "statusCode (Failure c m) = c"
| "statusCode (Stream t b) = 200"
| "statusCode (Created m) = 201"
| "statusCode (UserList us) = 200"

section \<open>The handlers\<close>

definition storage_root :: "env \<Rightarrow> string" where
  "storage_root e = or_else (UPLOAD_STORAGE_PATH e) ''public/images''"

text \<open>\<^verbatim>\<open>server/api/users/[id]/profile.get.ts\<close>: serve a user's profile picture.\<close>

definition profile_get :: "env \<Rightarrow> event \<Rightarrow> server \<Rightarrow> response \<times> server" where
  "profile_get e ev s =
     (case getSession ev of
        None \<Rightarrow> (Failure 401 ''Unauthorized'', s)
      | Some session \<Rightarrow>
          (case getRouterParam_id ev of
             None \<Rightarrow> (Failure 400 ''Missing userId'', s)
           | Some userId \<Rightarrow>
               if \<not> truthy_string userId then (Failure 400 ''Missing userId'', s)
               else
                 let record = findUnique s userId;
                     imagePath = Option.bind record user_image;
                     filePath = path_join [storage_root e, or_else imagePath ''null'']
                 in if \<not> existsSync s filePath then (Failure 404 ''File not found'', s)
                    else (case files s filePath of
                            Some (File b) \<Rightarrow> (Stream ''application/octet-stream'' b, s)
                          | _ \<Rightarrow> (Failure 500 ''stream read failed'', s))))"

text \<open>The upload handler: store the \<^verbatim>\<open>file\<close> field of the form and record its path.\<close>

definition upload_post :: "env \<Rightarrow> event \<Rightarrow> server \<Rightarrow> response \<times> server" where
  "upload_post e ev s =
     (case getSession ev of
        None \<Rightarrow> (Failure 401 ''Unauthorized'', s)
      | Some session \<Rightarrow>
          (case readMultipartFormData ev of
             None \<Rightarrow> (Failure 400 ''No form data'', s)
           | Some form \<Rightarrow>
               (case find (\<lambda>i. name i = Some ''file'') form of
                  None \<Rightarrow> (Failure 400 ''File missing'', s)
                | Some file \<Rightarrow>
                    if \<not> truthy_Buffer (data file) then (Failure 400 ''File missing'', s)
                    else
                      let dirPath = path_join [storage_root e, ''users'', session_user_id session, ''images'']
                      in (case (if \<not> existsSync s dirPath then mkdirSync e dirPath s else Inr s) of
                            Inl thrown \<Rightarrow> (Failure 500 (fst thrown), snd thrown)
                          | Inr s1 \<Rightarrow>
                              let randomImageId = randomUUID e;
                                  filePath = path_join [dirPath, randomImageId]
                              in if existsSync s1 filePath then (Failure 400 ''Image already exists.'', s1)
                                 else
                                   let s2 = writeFile filePath (data file) s1
                                   in (case user_update (session_user_id session)
                                              (path_join [''users'', session_user_id session, ''images'', randomImageId]) s2 of
                                         Inl err \<Rightarrow> (Failure 500 err, s2)
                                       | Inr s3 \<Rightarrow> (Created ''Added profile picture to logged in user.'', s3))))))"

text \<open>\<^verbatim>\<open>server/api/users/index.get.ts\<close>: the user list, each image replaced by a flag.\<close>

definition redact :: "user \<Rightarrow> redacted_user" where
  "redact u =
     \<lparr>r_id = user_id u, r_email = user_email u, r_name = user_name u,
      r_emailVerified = user_emailVerified u, r_image = (user_image u \<noteq> None)\<rparr>"

definition index_get :: "server \<Rightarrow> response \<times> server" where
  "index_get s = (UserList (map redact (findMany s)), s)"

section \<open>Names for what the handlers compute\<close>

text \<open>The \<^verbatim>\<open>file\<close> field the upload handler finds, if the form is there and has one.\<close>

definition file_field :: "event \<Rightarrow> MultiPartData option" where
  "file_field ev =
     (case readMultipartFormData ev of
        None \<Rightarrow> None
      | Some form \<Rightarrow> find (\<lambda>i. name i = Some ''file'') form)"

text \<open>The directory, the file and the recorded path of an upload by the session's user.\<close>

definition upload_dirPath :: "env \<Rightarrow> session \<Rightarrow> string" where
  "upload_dirPath e session = path_join [storage_root e, ''users'', session_user_id session, ''images'']"

definition upload_filePath :: "env \<Rightarrow> session \<Rightarrow> string" where
  "upload_filePath e session = path_join [upload_dirPath e session, randomUUID e]"

definition upload_imagePath :: "env \<Rightarrow> session \<Rightarrow> string" where
  "upload_imagePath e session = path_join [''users'', session_user_id session, ''images'', randomUUID e]"

text \<open>The state in which the upload handler looks for the generated file name, or the exception of \<^verbatim>\<open>mkdirSync\<close>.\<close>

definition ensure_dir :: "env \<Rightarrow> string \<Rightarrow> server \<Rightarrow> (string \<times> server) + server" where
  "ensure_dir e p s = (if \<not> existsSync s p then mkdirSync e p s else Inr s)"

text \<open>The image path recorded for a user id, and the file the serve handler resolves it to.\<close>

definition imagePath_of :: "server \<Rightarrow> string \<Rightarrow> string option" where
  "imagePath_of s i = Option.bind (findUnique s i) user_image"

definition filePath_of :: "env \<Rightarrow> server \<Rightarrow> string \<Rightarrow> string" where
  "filePath_of e s i = path_join [storage_root e, or_else (imagePath_of s i) ''null'']"

text \<open>Two user rows that differ at most in the value of a recorded image path.\<close>

definition same_but_image_path :: "user \<Rightarrow> user \<Rightarrow> bool" where
  "same_but_image_path u v =
     (user_id u = user_id v \<and> user_email u = user_email v \<and> user_name u = user_name v \<and>
      user_emailVerified u = user_emailVerified v \<and> (user_image u = None) = (user_image v = None))"

section \<open>Normal forms of paths\<close>

text \<open>
  What \<^verbatim>\<open>path.normalize\<close> puts around the segments it keeps: the leading separator of
  an absolute path, the trailing separator, and \<^verbatim>\<open>.\<close> for no segment at all.
\<close>

definition with_separators :: "bool \<Rightarrow> bool \<Rightarrow> string list \<Rightarrow> string" where
  "with_separators isAbsolute trailingSeparator res =
     (if res = [] then (if isAbsolute then ''/'' else if trailingSeparator then ''./'' else ''.'')
      else (if isAbsolute then ''/'' else []) @ join_sep res @ (if trailingSeparator then ''/'' else []))"

text \<open>A segment that normalization keeps, and one that is a plain name (not \<^verbatim>\<open>..\<close>).\<close>

definition segment_ok :: "string \<Rightarrow> bool" where
  "segment_ok s = (s \<noteq> [] \<and> s \<noteq> ''.'' \<and> CHR ''/'' \<notin> set s)"

definition segment_plain :: "string \<Rightarrow> bool" where
  "segment_plain s = (segment_ok s \<and> s \<noteq> ''..'')"

section \<open>Concrete inputs\<close>

definition env0 :: env where
  "env0 = \<lparr>UPLOAD_STORAGE_PATH = None, randomUUID = ''3b241101-e2bb-4255-8caf-4136c566a962'',
            mkdir_error = None\<rparr>"

definition u1 :: user where
  "u1 = \<lparr>user_id = ''u1'', user_email = ''u1@example.org'', user_name = ''Ada'',
          user_emailVerified = True, user_image = None\<rparr>"

definition u2 :: user where
  "u2 = \<lparr>user_id = ''u2'', user_email = ''u2@example.org'', user_name = ''Bob'',
          user_emailVerified = False, user_image = None\<rparr>"

definition server0 :: server where
  "server0 = \<lparr>files = Map.empty, users = [u1, u2], pending = []\<rparr>"

text \<open>The 3-byte file of the spec's scenario, uploaded by \<^verbatim>\<open>u1\<close>.\<close>

definition file123 :: MultiPartData where
  "file123 = \<lparr>name = Some ''file'', filename = Some ''me.png'', data = [1, 2, 3]\<rparr>"

definition upload_u1 :: event where
  "upload_u1 = \<lparr>getSession = Some (Session ''u1''), getRouterParam_id = None,
                 readMultipartFormData = Some [file123]\<rparr>"

text \<open>Serve requests for the picture of \<^verbatim>\<open>u1\<close>: by \<^verbatim>\<open>u2\<close>, by \<^verbatim>\<open>u1\<close>, and without a session.\<close>

definition serve_u1 :: event where
  "serve_u1 = \<lparr>getSession = Some (Session ''u2''), getRouterParam_id = Some ''u1'',
                readMultipartFormData = None\<rparr>"

definition serve_u1_own :: event where
  "serve_u1_own = serve_u1\<lparr>getSession := Some (Session ''u1'')\<rparr>"

definition serve_u1_anonymous :: event where
  "serve_u1_anonymous = serve_u1\<lparr>getSession := None\<rparr>"

text \<open>
  The state after the upload of \<^verbatim>\<open>upload_u1\<close> to \<^verbatim>\<open>server0\<close> and the end of
  its write, written out.
\<close>

definition dirs_u1 :: "string \<rightharpoonup> node" where
  "dirs_u1 =
     [''public'' \<mapsto> Dir, ''public/images'' \<mapsto> Dir, ''public/images/users'' \<mapsto> Dir,
      ''public/images/users/u1'' \<mapsto> Dir, ''public/images/users/u1/images'' \<mapsto> Dir]"

definition server1 :: server where
  "server1 =
     \<lparr>files = dirs_u1(''public/images/users/u1/images/3b241101-e2bb-4255-8caf-4136c566a962'' \<mapsto> File [1, 2, 3]),
      users = [u1\<lparr>user_image := Some ''users/u1/images/3b241101-e2bb-4255-8caf-4136c566a962''\<rparr>, u2],
      pending = []\<rparr>"

text \<open>A state in which the file name that \<^verbatim>\<open>env0\<close> generates is already taken.\<close>

definition server_taken :: server where
  "server_taken =
     \<lparr>files = dirs_u1(''public/images/users/u1/images/3b241101-e2bb-4255-8caf-4136c566a962'' \<mapsto> File [9]),
      users = [u1, u2], pending = []\<rparr>"

text \<open>An upload whose \<^verbatim>\<open>file\<close> field carries an empty Buffer.\<close>

definition upload_empty :: event where
  "upload_empty = upload_u1\<lparr>readMultipartFormData := Some [file123\<lparr>data := []\<rparr>]\<rparr>"

text \<open>The state that upload leaves when the handler returns, its write still pending.\<close>

definition uploaded_u1 :: server where
  "uploaded_u1 = snd (upload_post env0 upload_u1 server0)"

text \<open>A state where the recorded file of \<^verbatim>\<open>u1\<close> is gone, and one with an entry named \<^verbatim>\<open>null\<close>.\<close>

definition server_file_gone :: server where
  "server_file_gone = server1\<lparr>files := dirs_u1\<rparr>"

definition server_null_entry :: server where
  "server_null_entry = server0\<lparr>files := [''public/images/null'' \<mapsto> File [7]]\<rparr>"

section \<open>Unfolding the handlers\<close>

lemmas value_defs =
  truthy_string_def truthy_Buffer_def or_else_def storage_root_def

lemmas path_defs =
  path_join_def path_normalize_def normalizeString_def normalize_segment_def

lemmas fs_defs =
  existsSync_def create_dirs_def mkdirSync_def writeFile_def write_event_def parents_def
  ensure_dir_def

lemmas db_defs =
  findUnique_def findMany_def user_update_def imagePath_of_def

lemmas input_defs =
  env0_def u1_def u2_def server0_def file123_def upload_u1_def serve_u1_def
  serve_u1_own_def serve_u1_anonymous_def dirs_u1_def server1_def server_taken_def
  upload_empty_def uploaded_u1_def server_file_gone_def
  server_null_entry_def

lemmas eval_defs =
  profile_get_def upload_post_def input_defs value_defs path_defs fs_defs db_defs
  file_field_def upload_dirPath_def upload_filePath_def upload_imagePath_def filePath_of_def
  Let_def upt_conv_Cons

lemma profile_get_no_session:
  "getSession ev = None \<Longrightarrow> profile_get e ev s = (Failure 401 ''Unauthorized'', s)"
  by (simp add: profile_get_def)

lemma profile_get_no_id:
  "getSession ev = Some a \<Longrightarrow> getRouterParam_id ev = None \<or> getRouterParam_id ev = Some [] \<Longrightarrow>
   profile_get e ev s = (Failure 400 ''Missing userId'', s)"
  by (auto simp: profile_get_def truthy_string_def)

lemma profile_get_with_session:
  "getSession ev = Some a \<Longrightarrow> getRouterParam_id ev = Some i \<Longrightarrow> i \<noteq> [] \<Longrightarrow>
   profile_get e ev s =
     (case files s (filePath_of e s i) of
        None \<Rightarrow> (Failure 404 ''File not found'', s)
      | Some (File b) \<Rightarrow> (Stream ''application/octet-stream'' b, s)
      | Some Dir \<Rightarrow> (Failure 500 ''stream read failed'', s))"
  by (simp add: profile_get_def truthy_string_def filePath_of_def imagePath_of_def existsSync_def
      split: option.splits node.splits)

lemma profile_get_state: "snd (profile_get e ev s) = s"
  by (simp add: profile_get_def Let_def split: option.splits node.splits)

section \<open>Splitting and joining at separators\<close>

lemma split_sep_nonempty: "split_sep p \<noteq> []"
  by (induction p) (auto split: list.splits)

lemma split_sep_append: "split_sep (a @ CHR ''/'' # b) = split_sep a @ split_sep b"
proof (induction a)
  case Nil
  show ?case by simp
next
  case (Cons c a)
  obtain s ss where s: "split_sep a = s # ss"
    using split_sep_nonempty [of a] by (cases "split_sep a") auto
  show ?case
    by (simp add: Cons s)
qed

lemma split_sep_no_slash: "s \<in> set (split_sep p) \<Longrightarrow> CHR ''/'' \<notin> set s"
proof (induction p arbitrary: s)
  case Nil
  then show ?case by simp
next
  case (Cons c p)
  obtain t ts where t: "split_sep p = t # ts"
    using split_sep_nonempty [of p] by (cases "split_sep p") auto
  from Cons.prems Cons.IH [of t] Cons.IH [of s] show ?case
    by (auto simp: t split: if_splits)
qed

lemma split_sep_plain: "CHR ''/'' \<notin> set s \<Longrightarrow> split_sep s = [s]"
  by (induction s) auto

lemma split_join_sep:
  "xs \<noteq> [] \<Longrightarrow> \<forall>s\<in>set xs. CHR ''/'' \<notin> set s \<Longrightarrow> split_sep (join_sep xs) = xs"
proof (induction xs rule: join_sep.induct)
  case 1
  then show ?case by simp
next
  case (2 s)
  then show ?case by (simp add: split_sep_plain)
next
  case (3 s t ss)
  then show ?case by (simp add: split_sep_append split_sep_plain)
qed


lemma join_sep_empty: "\<forall>s\<in>set xs. s \<noteq> [] \<Longrightarrow> join_sep xs = [] \<longleftrightarrow> xs = []"
  by (induction xs rule: join_sep.induct) auto

lemma hd_join_sep: "xs \<noteq> [] \<Longrightarrow> hd xs \<noteq> [] \<Longrightarrow> hd (join_sep xs) = hd (hd xs)"
  by (induction xs rule: join_sep.induct) auto


section \<open>Normalizing segments\<close>

text \<open>
  Normalizing a relative path first and then going on from any stack of segments gives
  what going on with the path itself gives: a \<^verbatim>\<open>..\<close> that the relative path keeps
  in front acts on the stack as it would have.
\<close>

lemma normalize_segment_noop [simp]:
  "normalize_segment m S [] = S" "normalize_segment m S ''.'' = S"
  by (simp_all add: normalize_segment_def)

lemma normalize_segment_push:
  "s \<noteq> [] \<Longrightarrow> s \<noteq> ''.'' \<Longrightarrow> s \<noteq> ''..'' \<Longrightarrow> normalize_segment m S s = S @ [s]"
  by (simp add: normalize_segment_def)


lemma normalize_segment_ok:
  assumes "list_all segment_ok S" and "CHR ''/'' \<notin> set x"
  shows "list_all segment_ok (normalize_segment m S x)"
proof -
  have "list_all segment_ok (butlast S)"
    using assms(1) by (auto simp: list_all_iff dest: in_set_butlastD)
  with assms show ?thesis
    by (auto simp: normalize_segment_def segment_ok_def)
qed

lemma foldl_normalize_ok:
  "list_all segment_ok S \<Longrightarrow> \<forall>x\<in>set xs. CHR ''/'' \<notin> set x \<Longrightarrow>
   list_all segment_ok (foldl (normalize_segment m) S xs)"
  by (induction xs arbitrary: S) (auto simp: normalize_segment_ok)




lemma foldl_normalize_plain:
  "list_all segment_plain R \<Longrightarrow> foldl (normalize_segment m) S R = S @ R"
  by (induction R arbitrary: S)
     (auto simp: normalize_segment_push segment_plain_def segment_ok_def)


section \<open>Nested calls of path.join\<close>

lemma split_sep_ok: "\<forall>x\<in>set (split_sep p). CHR ''/'' \<notin> set x"
  by (simp add: split_sep_no_slash)

lemma normalized_ok: "list_all segment_ok (foldl (normalize_segment m) [] (split_sep p))"
  by (intro foldl_normalize_ok split_sep_ok) simp

lemma segments_nonempty: "list_all segment_ok R \<Longrightarrow> \<forall>s\<in>set R. s \<noteq> []"
  by (auto simp: list_all_iff segment_ok_def)


lemma path_normalize_eq:
  assumes "p \<noteq> []"
  shows "path_normalize p =
     with_separators (hd p = CHR ''/'') (last p = CHR ''/'')
       (foldl (normalize_segment (hd p \<noteq> CHR ''/'')) [] (split_sep p))"
proof -
  let ?R = "foldl (normalize_segment (hd p \<noteq> CHR ''/'')) [] (split_sep p)"
  have "join_sep ?R = [] \<longleftrightarrow> ?R = []"
    by (intro join_sep_empty segments_nonempty normalized_ok)
  then show ?thesis
    using assms by (auto simp: path_normalize_def normalizeString_def Let_def with_separators_def)
qed


lemma hd_with_separators:
  assumes "list_all segment_ok R"
  shows "(hd (with_separators a t R) = CHR ''/'') = a"
proof (cases "R = []")
  case True
  then show ?thesis by (simp add: with_separators_def)
next
  case False
  then have h: "hd R \<in> set R" by simp
  with assms have ne: "hd R \<noteq> []" and ns: "CHR ''/'' \<notin> set (hd R)"
    by (auto simp: list_all_iff segment_ok_def)
  then have "hd (hd R) \<noteq> CHR ''/''"
    by (cases "hd R") auto
  moreover have "join_sep R \<noteq> []"
    using False assms by (simp add: join_sep_empty segments_nonempty)
  ultimately show ?thesis
    using False ne by (simp add: with_separators_def hd_join_sep hd_append)
qed




lemma hd_path_normalize: "p \<noteq> [] \<Longrightarrow> (hd (path_normalize p) = CHR ''/'') = (hd p = CHR ''/'')"
  by (simp add: path_normalize_eq hd_with_separators normalized_ok)





lemma join_sep_filter_nonempty:
  "filter (\<lambda>a. a \<noteq> []) xs \<noteq> [] \<Longrightarrow> join_sep (filter (\<lambda>a. a \<noteq> []) xs) \<noteq> []"
  by (simp add: join_sep_empty)






lemma upload_imagePath_relative: "hd (upload_imagePath e session) \<noteq> CHR ''/''"
proof -
  let ?ys = "filter (\<lambda>a. a \<noteq> []) [''users'', session_user_id session, ''images'', randomUUID e]"
  have ys: "?ys = ''users'' # filter (\<lambda>a. a \<noteq> []) [session_user_id session, ''images'', randomUUID e]"
    by simp
  have "hd (join_sep ?ys) = CHR ''u''"
    by (subst hd_join_sep) (simp_all only: ys list.sel, simp_all)
  moreover have "join_sep ?ys \<noteq> []"
    by (rule join_sep_filter_nonempty) simp
  ultimately show ?thesis
    by (simp add: upload_imagePath_def path_join_def Let_def hd_path_normalize)
qed

lemma upload_imagePath_plain:
  assumes "segment_plain (session_user_id session)" and "segment_plain (randomUUID e)"
  shows "upload_imagePath e session = ''users/'' @ session_user_id session @ ''/images/'' @ randomUUID e"
proof -
  let ?i = "session_user_id session" and ?u = "randomUUID e"
  let ?xs = "[''users'', ?i, ''images'', ?u]"
  let ?q = "join_sep ?xs"
  from assms have ne: "?i \<noteq> []" "?u \<noteq> []" and ns: "CHR ''/'' \<notin> set ?i" "CHR ''/'' \<notin> set ?u"
    by (simp_all add: segment_plain_def segment_ok_def)
  have pl: "list_all segment_plain ?xs"
    using assms by (simp add: segment_plain_def segment_ok_def)
  have sp: "split_sep ?q = ?xs"
    by (rule split_join_sep) (simp_all add: ns)
  have l: "last ?q \<noteq> CHR ''/''"
    using ne ns by (auto simp: last_append) (metis last_in_set)
  have "path_normalize ?q = with_separators False False (foldl (normalize_segment True) [] ?xs)"
    using path_normalize_eq [of ?q] l by (simp only: sp) simp
  also have "\<dots> = ?q"
    by (simp only: foldl_normalize_plain [OF pl]) (simp add: with_separators_def)
  finally show ?thesis
    using ne by (simp add: upload_imagePath_def path_join_def)
qed

section \<open>The upload handler\<close>

lemma mkdirSync_rest: "mkdirSync e p s = Inr s1 \<Longrightarrow> users s1 = users s \<and> pending s1 = pending s"
  by (auto simp: mkdirSync_def split: option.splits)

lemma ensure_dir_rest: "ensure_dir e p s = Inr s1 \<Longrightarrow> users s1 = users s \<and> pending s1 = pending s"
  by (auto simp: ensure_dir_def mkdirSync_rest split: if_splits)

lemma ensure_dir_500: "ensure_dir e p s = Inl thrown \<Longrightarrow> fst thrown = ''mkdir failed''"
  by (auto simp: ensure_dir_def mkdirSync_def split: if_splits option.splits)

lemma writeFile_rest: "users (writeFile p d s) = users s" "files (writeFile p d s) = files s"
  by (simp_all add: writeFile_def)

lemma findUnique_cong: "users t = users s \<Longrightarrow> findUnique t i = findUnique s i"
  by (simp add: findUnique_def)


lemma upload_post_with_file:
  assumes "getSession ev = Some session" and "file_field ev = Some file"
  shows "upload_post e ev s =
     (case ensure_dir e (upload_dirPath e session) s of
        Inl thrown \<Rightarrow> (Failure 500 (fst thrown), snd thrown)
      | Inr s1 \<Rightarrow>
          if existsSync s1 (upload_filePath e session) then (Failure 400 ''Image already exists.'', s1)
          else
            (case user_update (session_user_id session) (upload_imagePath e session)
                    (writeFile (upload_filePath e session) (data file) s1) of
               Inl err \<Rightarrow> (Failure 500 err, writeFile (upload_filePath e session) (data file) s1)
             | Inr s3 \<Rightarrow> (Created ''Added profile picture to logged in user.'', s3)))"
proof -
  from assms(2) obtain form where "readMultipartFormData ev = Some form"
    and "find (\<lambda>i. name i = Some ''file'') form = Some file"
    by (auto simp: file_field_def split: option.splits)
  then show ?thesis
    using assms(1)
    by (simp add: upload_post_def truthy_Buffer_def ensure_dir_def upload_dirPath_def
        upload_filePath_def upload_imagePath_def Let_def split: sum.splits)
qed

lemma upload_post_without_file:
  assumes "getSession ev = Some session" and "file_field ev = None"
  shows "\<exists>m. upload_post e ev s = (Failure 400 m, s)"
  using assms by (auto simp: upload_post_def file_field_def split: option.splits)

lemma imagePath_of_update:
  assumes "findUnique s i \<noteq> None"
  shows "imagePath_of (s\<lparr>users := map (\<lambda>u. if user_id u = i then u\<lparr>user_image := Some p\<rparr> else u) (users s)\<rparr>) i = Some p"
proof -
  have fm: "find (\<lambda>u. user_id u = i) (map (\<lambda>u. if user_id u = i then u\<lparr>user_image := Some p\<rparr> else u) us)
      = map_option (\<lambda>u. u\<lparr>user_image := Some p\<rparr>) (find (\<lambda>u. user_id u = i) us)" for us
    by (induction us) auto
  from assms obtain y where "find (\<lambda>u. user_id u = i) (users s) = Some y"
    by (auto simp: findUnique_def)
  then show ?thesis
    by (simp add: imagePath_of_def findUnique_def fm)
qed

lemma upload_post_created:
  assumes "getSession ev = Some session" and "file_field ev = Some file"
    and "ensure_dir e (upload_dirPath e session) s = Inr s1"
    and "\<not> existsSync s1 (upload_filePath e session)"
    and "findUnique s (session_user_id session) \<noteq> None"
  shows "fst (upload_post e ev s) = Created ''Added profile picture to logged in user.''"
    and "imagePath_of (snd (upload_post e ev s)) (session_user_id session) = Some (upload_imagePath e session)"
    and "files (snd (upload_post e ev s)) = files s1"
    and "pending (snd (upload_post e ev s)) = pending s @ [(upload_filePath e session, data file)]"
proof -
  let ?s2 = "writeFile (upload_filePath e session) (data file) s1"
  note r = ensure_dir_rest [OF assms(3)]
  have u: "users ?s2 = users s"
    using r by (simp add: writeFile_rest)
  have f: "findUnique ?s2 (session_user_id session) \<noteq> None"
    using assms(5) by (simp add: findUnique_cong [OF u])
  have up: "upload_post e ev s =
      (Created ''Added profile picture to logged in user.'',
       ?s2\<lparr>users := map (\<lambda>u. if user_id u = session_user_id session
              then u\<lparr>user_image := Some (upload_imagePath e session)\<rparr> else u) (users ?s2)\<rparr>)"
    using assms(3,4) f by (simp add: upload_post_with_file [OF assms(1,2)] user_update_def)
  show "fst (upload_post e ev s) = Created ''Added profile picture to logged in user.''"
    by (simp add: up)
  show "imagePath_of (snd (upload_post e ev s)) (session_user_id session) = Some (upload_imagePath e session)"
    by (simp add: up imagePath_of_update [OF f])
  show "files (snd (upload_post e ev s)) = files s1"
    by (simp add: up writeFile_rest)
  show "pending (snd (upload_post e ev s)) = pending s @ [(upload_filePath e session, data file)]"
    using r by (simp add: up writeFile_def)
qed

text \<open>What the newest pending write leaves, by the way it ends.\<close>

lemma write_event_newest:
  assumes "pending t = ws @ [(p, d)]"
  shows "files (write_event Completed (length ws) t) = (files t)(p \<mapsto> File d)"
    and "files (write_event OpenFailed (length ws) t) = files t"
    and "files (write_event (WriteFailed n) (length ws) t) = (files t)(p \<mapsto> File (take n d))"
    and "files (write_event (Opened n) (length ws) t) = (files t)(p \<mapsto> File (take n d))"
    and "users (write_event pr (length ws) t) = users t"
  using assms by (simp_all add: write_event_def Let_def split: write_progress.splits)

text \<open>The upload of the bytes 1, 2, 3 by \<^verbatim>\<open>u1\<close> to the empty disk, evaluated once.\<close>

lemma upload_u1_result:
  "upload_post env0 upload_u1 server0 =
     (Created ''Added profile picture to logged in user.'',
      \<lparr>files = dirs_u1,
       users = [u1\<lparr>user_image := Some ''users/u1/images/3b241101-e2bb-4255-8caf-4136c566a962''\<rparr>, u2],
       pending = [(''public/images/users/u1/images/3b241101-e2bb-4255-8caf-4136c566a962'', [1, 2, 3])]\<rparr>)"
  by (simp add: eval_defs)

lemma uploaded_u1_eq:
  "uploaded_u1 =
     \<lparr>files = dirs_u1,
      users = [u1\<lparr>user_image := Some ''users/u1/images/3b241101-e2bb-4255-8caf-4136c566a962''\<rparr>, u2],
      pending = [(''public/images/users/u1/images/3b241101-e2bb-4255-8caf-4136c566a962'', [1, 2, 3])]\<rparr>"
  by (simp add: uploaded_u1_def upload_u1_result)


text \<open>
  When \<^verbatim>\<open>mkdirSync\<close> throws after it has created two of the parents, the upload is
  answered 500 and those two directories stay.
\<close>

lemma upload_post_mkdir_fails:
  "upload_post (env0\<lparr>mkdir_error := Some 2\<rparr>) upload_u1 server0 =
     (Failure 500 ''mkdir failed'',
      server0\<lparr>files := [''public'' \<mapsto> Dir, ''public/images'' \<mapsto> Dir]\<rparr>)"
  by (simp add: eval_defs)

text \<open>
  C4. An upload request without an authenticated session is answered 401 and leaves the
  state as it was: no directory is created, no file is written, no user row is changed.
\<close>

theorem upload_post_unauthenticated:
  "getSession ev = None \<Longrightarrow>
   upload_post e ev s = (Failure 401 ''Unauthorized'', s) \<and>
   statusCode (fst (upload_post e ev s)) = 401 \<and>
   files (snd (upload_post e ev s)) = files s \<and> users (snd (upload_post e ev s)) = users s"
  by (simp add: upload_post_def)

theorem upload_post_unauthenticated_witness:
  "upload_post env0 (upload_u1\<lparr>getSession := None\<rparr>) server0 = (Failure 401 ''Unauthorized'', server0)"
  using upload_post_unauthenticated [of "upload_u1\<lparr>getSession := None\<rparr>" env0 server0]
  by simp

text \<open>
  C6, as the claim states it, fails: an authenticated upload whose form has a
  \<^verbatim>\<open>file\<close> field is answered 400 when the generated file name is already taken.
\<close>

theorem upload_post_name_taken:
  "getSession upload_u1 \<noteq> None \<and> file_field upload_u1 = Some file123 \<and>
   upload_post env0 upload_u1 server_taken = (Failure 400 ''Image already exists.'', server_taken)"
  by (simp add: eval_defs)

text \<open>
  C6, amended. An authenticated upload is answered 400 exactly when the form data is
  absent, the form has no \<^verbatim>\<open>file\<close> field, or the handler gets as far as the
  generated file name (the directory is there or was created) and finds it taken.
\<close>

theorem upload_post_400_iff:
  assumes "getSession ev = Some session"
  shows "statusCode (fst (upload_post e ev s)) = 400 \<longleftrightarrow>
     file_field ev = None \<or>
     (case ensure_dir e (upload_dirPath e session) s of
        Inl err \<Rightarrow> False
      | Inr s1 \<Rightarrow> existsSync s1 (upload_filePath e session))"
proof (cases "file_field ev")
  case None
  with upload_post_without_file [OF assms None, of e s] show ?thesis by auto
next
  case (Some f)
  note up = upload_post_with_file [OF assms Some, of e s]
  show ?thesis
  proof (cases "ensure_dir e (upload_dirPath e session) s")
    case (Inl thrown)
    then show ?thesis
      by (simp add: up Some)
  next
    case (Inr s1)
    show ?thesis
    proof (cases "existsSync s1 (upload_filePath e session)")
      case True
      then show ?thesis by (simp add: up Some Inr)
    next
      case False
      then show ?thesis
        by (simp add: up Some Inr user_update_def split: sum.splits)
    qed
  qed
qed

theorem upload_post_400_iff_witness:
  "statusCode (fst (upload_post env0 upload_u1 server_taken)) = 400 \<and>
   file_field upload_u1 \<noteq> None \<and>
   statusCode (fst (upload_post env0 upload_u1 server0)) \<noteq> 400 \<and>
   statusCode (fst (upload_post env0 (upload_u1\<lparr>readMultipartFormData := None\<rparr>) server0)) = 400"
proof -
  have s: "getSession upload_u1 = Some (Session ''u1'')"
    "getSession (upload_u1\<lparr>readMultipartFormData := None\<rparr>) = Some (Session ''u1'')"
    by (simp_all add: upload_u1_def)
  have f: "file_field upload_u1 \<noteq> None" "file_field (upload_u1\<lparr>readMultipartFormData := None\<rparr>) = None"
    by (simp_all add: file_field_def upload_u1_def file123_def)
  have t: "ensure_dir env0 (upload_dirPath env0 (Session ''u1'')) server_taken = Inr server_taken"
    by (simp add: eval_defs)
  have x: "existsSync server_taken (upload_filePath env0 (Session ''u1''))"
    by (simp add: eval_defs)
  have n: "(case ensure_dir env0 (upload_dirPath env0 (Session ''u1'')) server0 of
        Inl err \<Rightarrow> False | Inr s1 \<Rightarrow> existsSync s1 (upload_filePath env0 (Session ''u1''))) = False"
    by (simp add: eval_defs)
  from upload_post_400_iff [OF s(1), of env0 server_taken] t x
  have a: "statusCode (fst (upload_post env0 upload_u1 server_taken)) = 400" by simp
  from upload_post_400_iff [OF s(1), of env0 server0] f(1) n
  have b: "statusCode (fst (upload_post env0 upload_u1 server0)) \<noteq> 400" by simp
  from upload_post_400_iff [OF s(2), of env0 server0] f(2)
  have c: "statusCode (fst (upload_post env0 (upload_u1\<lparr>readMultipartFormData := None\<rparr>) server0)) = 400"
    by simp
  from a b c f(1) show ?thesis by simp
qed

text \<open>
  C7, as the claim states it, fails: a \<^verbatim>\<open>file\<close> field with an empty Buffer is
  accepted. \<^verbatim>\<open>!file.data\<close> tests the Buffer object, which is truthy at any length;
  the upload is answered 201, the write of no bytes is started (and leaves a file of no
  bytes when it completes) and its path is recorded.
\<close>

theorem upload_post_accepts_empty_file:
  "file_field upload_empty = Some (file123\<lparr>data := []\<rparr>) \<and>
   fst (upload_post env0 upload_empty server0) = Created ''Added profile picture to logged in user.'' \<and>
   pending (snd (upload_post env0 upload_empty server0)) =
     [(''public/images/users/u1/images/3b241101-e2bb-4255-8caf-4136c566a962'', [])] \<and>
   files (write_event Completed 0 (snd (upload_post env0 upload_empty server0)))
     ''public/images/users/u1/images/3b241101-e2bb-4255-8caf-4136c566a962'' = Some (File []) \<and>
   imagePath_of (snd (upload_post env0 upload_empty server0)) ''u1''
     = Some ''users/u1/images/3b241101-e2bb-4255-8caf-4136c566a962''"
  by (simp add: eval_defs)

text \<open>
  C7, amended. An authenticated upload whose \<^verbatim>\<open>file\<close> field carries an empty
  Buffer is handled as any other upload: when the directory is there or can be created,
  the generated name is free and the user's row exists, it is answered 201 and the path
  is recorded; the write it starts is that of no bytes, so the file is empty when the write
  completes, and there is none when the open is refused.
\<close>

theorem upload_post_empty_file:
  assumes "getSession ev = Some session" and "file_field ev = Some f" and "data f = []"
    and "ensure_dir e (upload_dirPath e session) s = Inr s1"
    and "\<not> existsSync s1 (upload_filePath e session)"
    and "findUnique s (session_user_id session) \<noteq> None"
  shows "fst (upload_post e ev s) = Created ''Added profile picture to logged in user.'' \<and>
     imagePath_of (snd (upload_post e ev s)) (session_user_id session) = Some (upload_imagePath e session) \<and>
     pending (snd (upload_post e ev s)) = pending s @ [(upload_filePath e session, [])] \<and>
     files (write_event Completed (length (pending s)) (snd (upload_post e ev s))) (upload_filePath e session) =
       Some (File []) \<and>
     files (write_event OpenFailed (length (pending s)) (snd (upload_post e ev s))) (upload_filePath e session) =
       None \<and>
     (\<forall>n. files (write_event (Opened n) (length (pending s)) (snd (upload_post e ev s)))
            (upload_filePath e session) = Some (File []) \<and>
          files (write_event (WriteFailed n) (length (pending s)) (snd (upload_post e ev s)))
            (upload_filePath e session) = Some (File []))"
proof -
  note c = upload_post_created [OF assms(1,2,4,5,6)]
  have p: "pending (snd (upload_post e ev s)) = pending s @ [(upload_filePath e session, [])]"
    using c(4) assms(3) by simp
  note w = write_event_newest [OF p]
  have "files s1 (upload_filePath e session) = None"
    using assms(5) by (simp add: existsSync_def)
  then show ?thesis
    by (simp add: c(1,2,3) p w)
qed

theorem upload_post_empty_file_witness:
  "fst (upload_post env0 upload_empty server0) = Created ''Added profile picture to logged in user.'' \<and>
   imagePath_of (snd (upload_post env0 upload_empty server0)) ''u1'' = Some (upload_imagePath env0 (Session ''u1'')) \<and>
   files (write_event Completed 0 (snd (upload_post env0 upload_empty server0)))
     (upload_filePath env0 (Session ''u1'')) = Some (File [])"
proof -
  have 1: "getSession upload_empty = Some (Session ''u1'')"
    by (simp add: upload_empty_def upload_u1_def)
  have 2: "file_field upload_empty = Some (file123\<lparr>data := []\<rparr>)"
    by (simp add: upload_empty_def upload_u1_def file_field_def file123_def)
  have 3: "data (file123\<lparr>data := []\<rparr>) = []"
    by simp
  have 4: "ensure_dir env0 (upload_dirPath env0 (Session ''u1'')) server0 = Inr (server0\<lparr>files := dirs_u1\<rparr>)"
    by (simp add: eval_defs)
  have 5: "\<not> existsSync (server0\<lparr>files := dirs_u1\<rparr>) (upload_filePath env0 (Session ''u1''))"
    by (simp add: eval_defs)
  have 6: "findUnique server0 (session_user_id (Session ''u1'')) \<noteq> None"
    by (simp add: eval_defs)
  have 7: "length (pending server0) = 0"
    by (simp add: server0_def)
  from upload_post_empty_file [OF 1 2 3 4 5 6] 7 show ?thesis
    by simp
qed

text \<open>
  C3. The claim asks for a failing disk write to reach the caller and for the user row to
  be updated only after the write has succeeded. The handler does neither. The upload of
  the bytes 1, 2, 3 by \<^verbatim>\<open>u1\<close> is answered 201 and the path is recorded in the row
  of \<^verbatim>\<open>u1\<close> while the write is still pending and the disk holds the directories
  only. When the write then fails, the row keeps the path: with the open refused there is
  no file, and with a failure right after the open there is a file of no bytes.
\<close>

theorem upload_post_write_failure:
  "fst (upload_post env0 upload_u1 server0) = Created ''Added profile picture to logged in user.'' \<and>
   uploaded_u1 = snd (upload_post env0 upload_u1 server0) \<and>
   pending uploaded_u1 =
     [(''public/images/users/u1/images/3b241101-e2bb-4255-8caf-4136c566a962'', [1, 2, 3])] \<and>
   users uploaded_u1 =
     [u1\<lparr>user_image := Some ''users/u1/images/3b241101-e2bb-4255-8caf-4136c566a962''\<rparr>, u2] \<and>
   files uploaded_u1 = dirs_u1 \<and>
   users (write_event OpenFailed 0 uploaded_u1) =
     [u1\<lparr>user_image := Some ''users/u1/images/3b241101-e2bb-4255-8caf-4136c566a962''\<rparr>, u2] \<and>
   files (write_event OpenFailed 0 uploaded_u1) = dirs_u1 \<and>
   users (write_event (WriteFailed 0) 0 uploaded_u1) =
     [u1\<lparr>user_image := Some ''users/u1/images/3b241101-e2bb-4255-8caf-4136c566a962''\<rparr>, u2] \<and>
   files (write_event (WriteFailed 0) 0 uploaded_u1) =
     dirs_u1(''public/images/users/u1/images/3b241101-e2bb-4255-8caf-4136c566a962'' \<mapsto> File [])"
proof -
  have 1: "fst (upload_post env0 upload_u1 server0) = Created ''Added profile picture to logged in user.''"
    by (simp add: upload_u1_result)
  have 2: "uploaded_u1 = snd (upload_post env0 upload_u1 server0)"
    by (simp only: uploaded_u1_def)
  have 3: "pending uploaded_u1 =
     [(''public/images/users/u1/images/3b241101-e2bb-4255-8caf-4136c566a962'', [1, 2, 3])] \<and>
   users uploaded_u1 =
     [u1\<lparr>user_image := Some ''users/u1/images/3b241101-e2bb-4255-8caf-4136c566a962''\<rparr>, u2] \<and>
   files uploaded_u1 = dirs_u1 \<and>
   users (write_event OpenFailed 0 uploaded_u1) =
     [u1\<lparr>user_image := Some ''users/u1/images/3b241101-e2bb-4255-8caf-4136c566a962''\<rparr>, u2] \<and>
   files (write_event OpenFailed 0 uploaded_u1) = dirs_u1 \<and>
   users (write_event (WriteFailed 0) 0 uploaded_u1) =
     [u1\<lparr>user_image := Some ''users/u1/images/3b241101-e2bb-4255-8caf-4136c566a962''\<rparr>, u2] \<and>
   files (write_event (WriteFailed 0) 0 uploaded_u1) =
     dirs_u1(''public/images/users/u1/images/3b241101-e2bb-4255-8caf-4136c566a962'' \<mapsto> File [])"
    by (simp add: uploaded_u1_eq write_event_def)
  from 1 2 3 show ?thesis by blast
qed

text \<open>
  C8. The claim asks for the recorded path to name the file written under the storage
  root and to be recorded only after the disk write. The upload is answered 201 with the
  path recorded for \<^verbatim>\<open>u1\<close> and no file there yet. With the open of the write
  refused, the recorded path names a file that does not exist, and serving \<^verbatim>\<open>u1\<close>
  is answered 404; with a failure right after the open, \<^verbatim>\<open>u1\<close> is served no bytes.
\<close>

theorem upload_post_records_unwritten_file:
  "statusCode (fst (upload_post env0 upload_u1 server0)) = 201 \<and>
   uploaded_u1 = snd (upload_post env0 upload_u1 server0) \<and>
   imagePath_of uploaded_u1 ''u1'' = Some ''users/u1/images/3b241101-e2bb-4255-8caf-4136c566a962'' \<and>
   \<not> existsSync uploaded_u1 ''public/images/users/u1/images/3b241101-e2bb-4255-8caf-4136c566a962'' \<and>
   imagePath_of (write_event OpenFailed 0 uploaded_u1) ''u1'' =
     Some ''users/u1/images/3b241101-e2bb-4255-8caf-4136c566a962'' \<and>
   \<not> existsSync (write_event OpenFailed 0 uploaded_u1)
     ''public/images/users/u1/images/3b241101-e2bb-4255-8caf-4136c566a962'' \<and>
   fst (profile_get env0 serve_u1 (write_event OpenFailed 0 uploaded_u1)) = Failure 404 ''File not found'' \<and>
   fst (profile_get env0 serve_u1 (write_event (WriteFailed 0) 0 uploaded_u1)) =
     Stream ''application/octet-stream'' []"
proof -
  have 1: "statusCode (fst (upload_post env0 upload_u1 server0)) = 201"
    by (simp add: upload_u1_result)
  have 2: "uploaded_u1 = snd (upload_post env0 upload_u1 server0)"
    by (simp only: uploaded_u1_def)
  have 3: "imagePath_of uploaded_u1 ''u1'' = Some ''users/u1/images/3b241101-e2bb-4255-8caf-4136c566a962'' \<and>
   \<not> existsSync uploaded_u1 ''public/images/users/u1/images/3b241101-e2bb-4255-8caf-4136c566a962'' \<and>
   imagePath_of (write_event OpenFailed 0 uploaded_u1) ''u1'' =
     Some ''users/u1/images/3b241101-e2bb-4255-8caf-4136c566a962'' \<and>
   \<not> existsSync (write_event OpenFailed 0 uploaded_u1)
     ''public/images/users/u1/images/3b241101-e2bb-4255-8caf-4136c566a962'' \<and>
   fst (profile_get env0 serve_u1 (write_event OpenFailed 0 uploaded_u1)) = Failure 404 ''File not found'' \<and>
   fst (profile_get env0 serve_u1 (write_event (WriteFailed 0) 0 uploaded_u1)) =
     Stream ''application/octet-stream'' []"
    unfolding uploaded_u1_eq
    by (simp add: write_event_def profile_get_def env0_def u1_def u2_def serve_u1_def dirs_u1_def
        value_defs path_defs existsSync_def db_defs filePath_of_def Let_def)
  from 1 2 3 show ?thesis by blast
qed

text \<open>
  What a serve request for \<^verbatim>\<open>u1\<close> gets while that write goes on: 404 before the
  file is opened, then the bytes written so far, and all of them once the write has
  completed.
\<close>

lemma serve_while_write_pending:
  "fst (profile_get env0 serve_u1 uploaded_u1) = Failure 404 ''File not found'' \<and>
   fst (profile_get env0 serve_u1 (write_event (Opened 0) 0 uploaded_u1)) =
     Stream ''application/octet-stream'' [] \<and>
   fst (profile_get env0 serve_u1 (write_event (Opened 2) 0 uploaded_u1)) =
     Stream ''application/octet-stream'' [1, 2] \<and>
   fst (profile_get env0 serve_u1 (write_event Completed 0 uploaded_u1)) =
     Stream ''application/octet-stream'' [1, 2, 3]"
  unfolding uploaded_u1_eq
  by (simp add: write_event_def profile_get_def env0_def u1_def u2_def serve_u1_def dirs_u1_def
      value_defs path_defs existsSync_def db_defs filePath_of_def Let_def)

text \<open>
  For an upload that is answered 201, the recorded path is
  \<^verbatim>\<open>path.join('users', ownerId, 'images', filename)\<close>; it never starts with a separator,
  and it is \<^verbatim>\<open>users/<ownerId>/images/<filename>\<close> letter for letter when the owner's
  id and the file name are plain segments.
\<close>

theorem upload_post_recorded_path:
  assumes "getSession ev = Some session" and "file_field ev = Some f"
    and "ensure_dir e (upload_dirPath e session) s = Inr s1"
    and "\<not> existsSync s1 (upload_filePath e session)"
    and "findUnique s (session_user_id session) \<noteq> None"
  shows "imagePath_of (snd (upload_post e ev s)) (session_user_id session) =
       Some (path_join [''users'', session_user_id session, ''images'', randomUUID e]) \<and>
     hd (path_join [''users'', session_user_id session, ''images'', randomUUID e]) \<noteq> CHR ''/'' \<and>
     (segment_plain (session_user_id session) \<and> segment_plain (randomUUID e) \<longrightarrow>
        path_join [''users'', session_user_id session, ''images'', randomUUID e] =
          ''users/'' @ session_user_id session @ ''/images/'' @ randomUUID e)"
  using upload_post_created(2) [OF assms] upload_imagePath_relative [of e session]
    upload_imagePath_plain [of session e]
  by (simp add: upload_imagePath_def)

theorem upload_post_recorded_path_witness:
  "imagePath_of (snd (upload_post env0 upload_u1 server0)) ''u1'' =
     Some ''users/u1/images/3b241101-e2bb-4255-8caf-4136c566a962''"
proof -
  have 1: "getSession upload_u1 = Some (Session ''u1'')"
    by (simp add: upload_u1_def)
  have 2: "file_field upload_u1 = Some file123"
    by (simp add: upload_u1_def file_field_def file123_def)
  have 3: "ensure_dir env0 (upload_dirPath env0 (Session ''u1'')) server0 = Inr (server0\<lparr>files := dirs_u1\<rparr>)"
    by (simp add: eval_defs)
  have 4: "\<not> existsSync (server0\<lparr>files := dirs_u1\<rparr>) (upload_filePath env0 (Session ''u1''))"
    by (simp add: eval_defs)
  have 5: "findUnique server0 (session_user_id (Session ''u1'')) \<noteq> None"
    by (simp add: eval_defs)
  have 6: "segment_plain (session_user_id (Session ''u1'')) \<and> segment_plain (randomUUID env0)"
    by (simp add: segment_plain_def segment_ok_def env0_def)
  from upload_post_recorded_path [OF 1 2 3 4 5] 6 show ?thesis
    by (simp add: env0_def)
qed




section \<open>The serve handler\<close>

text \<open>
  C1, as the claim states it, fails: the serve handler asks for a session first. The same
  request for the picture of \<^verbatim>\<open>u1\<close> is answered 401 without a session and with the
  picture with one.
\<close>

theorem profile_get_requires_session:
  "statusCode (fst (profile_get env0 serve_u1_anonymous server1)) = 401 \<and>
   fst (profile_get env0 serve_u1 server1) = Stream ''application/octet-stream'' [1, 2, 3]"
  by (simp add: eval_defs)

text \<open>
  C1, amended. A serve request without a session is answered 401. With a session, the
  response does not depend on whose session it is, and a failure is 400 (the user
  identifier is missing or empty), 404 (nothing exists at the resolved path) or, when
  the resolved path is a directory, the failure of the read stream (500).
\<close>

theorem profile_get_responses:
  "(getSession ev = None \<longrightarrow> fst (profile_get e ev s) = Failure 401 ''Unauthorized'') \<and>
   (getSession ev \<noteq> None \<and> getSession ev' \<noteq> None \<and> getRouterParam_id ev' = getRouterParam_id ev \<longrightarrow>
      profile_get e ev' s = profile_get e ev s) \<and>
   (getSession ev \<noteq> None \<longrightarrow>
      (\<forall>c m. fst (profile_get e ev s) = Failure c m \<longrightarrow>
         c = 400 \<and> (getRouterParam_id ev = None \<or> getRouterParam_id ev = Some []) \<or>
         (\<exists>i. getRouterParam_id ev = Some i \<and> c = 404 \<and> \<not> existsSync s (filePath_of e s i)) \<or>
         (\<exists>i. getRouterParam_id ev = Some i \<and> c = 500 \<and> files s (filePath_of e s i) = Some Dir)))"
proof (intro conjI impI allI)
  assume "getSession ev = None"
  then show "fst (profile_get e ev s) = Failure 401 ''Unauthorized''"
    by (simp add: profile_get_no_session)
next
  assume "getSession ev \<noteq> None \<and> getSession ev' \<noteq> None \<and> getRouterParam_id ev' = getRouterParam_id ev"
  then obtain a b where "getSession ev = Some a" "getSession ev' = Some b"
    and "getRouterParam_id ev' = getRouterParam_id ev" by auto
  then show "profile_get e ev' s = profile_get e ev s"
    by (simp add: profile_get_def)
next
  fix c m
  assume a: "getSession ev \<noteq> None" and f: "fst (profile_get e ev s) = Failure c m"
  from a obtain x where x: "getSession ev = Some x" by auto
  show "c = 400 \<and> (getRouterParam_id ev = None \<or> getRouterParam_id ev = Some []) \<or>
         (\<exists>i. getRouterParam_id ev = Some i \<and> c = 404 \<and> \<not> existsSync s (filePath_of e s i)) \<or>
         (\<exists>i. getRouterParam_id ev = Some i \<and> c = 500 \<and> files s (filePath_of e s i) = Some Dir)"
  proof (cases "getRouterParam_id ev = None \<or> getRouterParam_id ev = Some []")
    case True
    with x f show ?thesis by (simp add: profile_get_no_id)
  next
    case False
    then obtain i where i: "getRouterParam_id ev = Some i" "i \<noteq> []" by auto
    with x f show ?thesis
      by (auto simp: profile_get_with_session existsSync_def split: option.splits node.splits)
  qed
qed

theorem profile_get_responses_witness:
  "fst (profile_get env0 serve_u1_anonymous server1) = Failure 401 ''Unauthorized'' \<and>
   profile_get env0 serve_u1_own server1 = profile_get env0 serve_u1 server1 \<and>
   fst (profile_get env0 serve_u1 server0) = Failure 404 ''File not found'' \<and>
   \<not> existsSync server0 (filePath_of env0 server0 ''u1'')"
proof -
  have 1: "getSession serve_u1_anonymous = None"
    by (simp add: serve_u1_anonymous_def)
  have 2: "getSession serve_u1 \<noteq> None \<and> getSession serve_u1_own \<noteq> None \<and>
      getRouterParam_id serve_u1_own = getRouterParam_id serve_u1"
    by (simp add: serve_u1_def serve_u1_own_def)
  have 3: "fst (profile_get env0 serve_u1 server0) = Failure 404 ''File not found''"
    by (simp add: eval_defs)
  have 4: "getRouterParam_id serve_u1 = Some ''u1''"
    by (simp add: serve_u1_def)
  from profile_get_responses [of serve_u1_anonymous env0 server1] 1
  have a: "fst (profile_get env0 serve_u1_anonymous server1) = Failure 401 ''Unauthorized''"
    by blast
  from profile_get_responses [of serve_u1 env0 server1 serve_u1_own] 2
  have b: "profile_get env0 serve_u1_own server1 = profile_get env0 serve_u1 server1"
    by blast
  from profile_get_responses [of serve_u1 env0 server0] 2
  have "\<forall>c m. fst (profile_get env0 serve_u1 server0) = Failure c m \<longrightarrow>
         c = 400 \<and> (getRouterParam_id serve_u1 = None \<or> getRouterParam_id serve_u1 = Some []) \<or>
         (\<exists>i. getRouterParam_id serve_u1 = Some i \<and> c = 404 \<and> \<not> existsSync server0 (filePath_of env0 server0 i)) \<or>
         (\<exists>i. getRouterParam_id serve_u1 = Some i \<and> c = 500 \<and> files server0 (filePath_of env0 server0 i) = Some Dir)"
    by blast
  with 3 have "(400::nat) = 404 \<and> (getRouterParam_id serve_u1 = None \<or> getRouterParam_id serve_u1 = Some []) \<or>
         (\<exists>i. getRouterParam_id serve_u1 = Some i \<and> \<not> existsSync server0 (filePath_of env0 server0 i)) \<or>
         (\<exists>i. getRouterParam_id serve_u1 = Some i \<and> (500::nat) = 404)"
    by fastforce
  then have c: "\<not> existsSync server0 (filePath_of env0 server0 ''u1'')"
    by (simp add: 4)
  from a b c 3 show ?thesis by simp
qed

text \<open>
  C5, as the claim states it, fails: a request with a user identifier for a user without
  a recorded image path is answered 401, not 404, when it carries no session.
\<close>

theorem profile_get_no_image_unauthenticated:
  "getRouterParam_id serve_u1_anonymous = Some ''u1'' \<and> imagePath_of server0 ''u1'' = None \<and>
   statusCode (fst (profile_get env0 serve_u1_anonymous server0)) = 401"
  by (simp add: eval_defs)

text \<open>
  C5, amended. For a serve request with a session and a user identifier, the response is
  the same 404 when a path is recorded and nothing exists at it under the storage root,
  and when no path is recorded and nothing exists at the entry \<^verbatim>\<open>null\<close> under the
  storage root, which is where the handler looks in that case.
\<close>

theorem profile_get_not_found:
  assumes "getSession ev \<noteq> None" and "getRouterParam_id ev = Some i" and "i \<noteq> []"
    and "(imagePath_of s i = None \<or> imagePath_of s i = Some []) \<and>
           \<not> existsSync s (path_join [storage_root e, ''null'']) \<or>
         (\<exists>p. imagePath_of s i = Some p \<and> p \<noteq> [] \<and> \<not> existsSync s (path_join [storage_root e, p]))"
  shows "profile_get e ev s = (Failure 404 ''File not found'', s)"
proof -
  from assms(1) obtain a where a: "getSession ev = Some a" by auto
  from assms(4) have "\<not> existsSync s (filePath_of e s i)"
    by (auto simp: filePath_of_def or_else_def truthy_string_def)
  then show ?thesis
    using a assms(2,3) by (simp add: profile_get_with_session existsSync_def)
qed

theorem profile_get_not_found_witness:
  "profile_get env0 serve_u1 server0 = (Failure 404 ''File not found'', server0) \<and>
   profile_get env0 serve_u1 server_file_gone = (Failure 404 ''File not found'', server_file_gone) \<and>
   fst (profile_get env0 serve_u1 server0) = fst (profile_get env0 serve_u1 server_file_gone)"
proof -
  have s: "getSession serve_u1 \<noteq> None" "getRouterParam_id serve_u1 = Some ''u1''" "''u1'' \<noteq> []"
    by (simp_all add: serve_u1_def)
  have n: "(imagePath_of server0 ''u1'' = None \<or> imagePath_of server0 ''u1'' = Some []) \<and>
      \<not> existsSync server0 (path_join [storage_root env0, ''null''])"
    by (simp add: eval_defs)
  have g: "\<exists>p. imagePath_of server_file_gone ''u1'' = Some p \<and> p \<noteq> [] \<and>
      \<not> existsSync server_file_gone (path_join [storage_root env0, p])"
    by (simp add: eval_defs)
  from profile_get_not_found [OF s, of server0 env0] n
  have a: "profile_get env0 serve_u1 server0 = (Failure 404 ''File not found'', server0)"
    by blast
  from profile_get_not_found [OF s, of server_file_gone env0] g
  have b: "profile_get env0 serve_u1 server_file_gone = (Failure 404 ''File not found'', server_file_gone)"
    by blast
  from a b show ?thesis by simp
qed

text \<open>With an entry \<^verbatim>\<open>null\<close> under the storage root, a user without a path is served that entry.\<close>

lemma profile_get_null_entry:
  "imagePath_of server_null_entry ''u1'' = None \<and>
   fst (profile_get env0 serve_u1 server_null_entry) = Stream ''application/octet-stream'' [7]"
  by (simp add: eval_defs)

text \<open>
  C9. The serve handler returns the state it was given. Take two serve requests for the same
  user, in any two states that record the same image path for that user and hold the same
  entry at the file it resolves to (no upload for that user has come between, and the
  file is unchanged). If both carry a session, or neither does, they get the same
  response; and whenever both are answered with content, it is the same content.
\<close>

theorem profile_get_frame:
  assumes "getRouterParam_id ev = Some i" and "getRouterParam_id ev' = Some i"
    and "imagePath_of t i = imagePath_of s i"
    and "files t (filePath_of e s i) = files s (filePath_of e s i)"
  shows "snd (profile_get e ev s) = s \<and>
     ((getSession ev' = None) = (getSession ev = None) \<longrightarrow>
        fst (profile_get e ev' t) = fst (profile_get e ev s)) \<and>
     (\<forall>c b c' b'. fst (profile_get e ev s) = Stream c b \<and> fst (profile_get e ev' t) = Stream c' b' \<longrightarrow>
        c' = c \<and> b' = b)"
proof -
  have path: "filePath_of e t i = filePath_of e s i"
    using assms(3) by (simp add: filePath_of_def)
  have same: "fst (profile_get e ev' t) = fst (profile_get e ev s)"
    if eq: "(getSession ev' = None) = (getSession ev = None)"
  proof (cases "getSession ev")
    case None
    then show ?thesis using eq by (simp add: profile_get_no_session)
  next
    case (Some a)
    with eq have "getSession ev' \<noteq> None" by simp
    then obtain b where b: "getSession ev' = Some b" by auto
    show ?thesis
    proof (cases "i = []")
      case True
      then show ?thesis using Some b assms(1,2) by (simp add: profile_get_no_id)
    next
      case False
      then show ?thesis
        using Some b assms(1,2,4) path
        by (simp add: profile_get_with_session split: option.splits node.splits)
    qed
  qed
  have content: "c' = c \<and> b' = b"
    if "fst (profile_get e ev s) = Stream c b" and "fst (profile_get e ev' t) = Stream c' b'"
    for c b c' b'
  proof -
    have 1: "getSession ev \<noteq> None"
    proof
      assume "getSession ev = None"
      then have "fst (profile_get e ev s) = Failure 401 ''Unauthorized''"
        by (simp add: profile_get_no_session)
      with that(1) show False by simp
    qed
    have 2: "getSession ev' \<noteq> None"
    proof
      assume "getSession ev' = None"
      then have "fst (profile_get e ev' t) = Failure 401 ''Unauthorized''"
        by (simp add: profile_get_no_session)
      with that(2) show False by simp
    qed
    from 1 2 have "(getSession ev' = None) = (getSession ev = None)"
      by blast
    then have "fst (profile_get e ev' t) = fst (profile_get e ev s)"
      by (rule same)
    with that show ?thesis by simp
  qed
  show ?thesis
  proof (intro conjI impI allI)
    show "snd (profile_get e ev s) = s" by (rule profile_get_state)
  next
    assume "(getSession ev' = None) = (getSession ev = None)"
    then show "fst (profile_get e ev' t) = fst (profile_get e ev s)" by (rule same)
  next
    fix c b c' b'
    assume "fst (profile_get e ev s) = Stream c b \<and> fst (profile_get e ev' t) = Stream c' b'"
    then show "c' = c" "b' = b" using content by blast+
  qed
qed

theorem profile_get_frame_witness:
  "snd (profile_get env0 serve_u1 server1) = server1 \<and>
   fst (profile_get env0 serve_u1_own (snd (profile_get env0 serve_u1 server1))) =
     fst (profile_get env0 serve_u1 server1) \<and>
   fst (profile_get env0 serve_u1 server1) = Stream ''application/octet-stream'' [1, 2, 3]"
proof -
  have 1: "getRouterParam_id serve_u1 = Some ''u1''" "getRouterParam_id serve_u1_own = Some ''u1''"
    by (simp_all add: serve_u1_def serve_u1_own_def)
  have 2: "(getSession serve_u1_own = None) = (getSession serve_u1 = None)"
    by (simp add: serve_u1_def serve_u1_own_def)
  have 3: "fst (profile_get env0 serve_u1 server1) = Stream ''application/octet-stream'' [1, 2, 3]"
    by (simp add: eval_defs)
  note f = profile_get_frame [OF 1 refl refl, of env0 server1]
  from conjunct1 [OF f]
  have 4: "snd (profile_get env0 serve_u1 server1) = server1" .
  from conjunct1 [OF conjunct2 [OF f]] 2
  have "fst (profile_get env0 serve_u1_own server1) = fst (profile_get env0 serve_u1 server1)"
    by (rule mp)
  with 3 4 show ?thesis
    by simp
qed

section \<open>The user list\<close>

text \<open>
  C10. The response of the user list has one entry for each row, in order, with the row's
  id, email, name and verification flag, and for the image only the flag that tells whether
  one is recorded. The state is left as it was. So two states whose user rows differ at
  most in the values of recorded image paths get the same response.
\<close>

theorem index_get_redacts:
  "(\<exists>rs. fst (index_get s) = UserList rs \<and>
      list_all2 (\<lambda>u r. r_id r = user_id u \<and> r_email r = user_email u \<and> r_name r = user_name u \<and>
         r_emailVerified r = user_emailVerified u \<and> r_image r = (user_image u \<noteq> None)) (users s) rs) \<and>
   snd (index_get s) = s \<and>
   (list_all2 same_but_image_path (users s) (users t) \<longrightarrow> fst (index_get s) = fst (index_get t))"
proof (intro conjI impI)
  have "list_all2 (\<lambda>u r. r_id r = user_id u \<and> r_email r = user_email u \<and> r_name r = user_name u \<and>
         r_emailVerified r = user_emailVerified u \<and> r_image r = (user_image u \<noteq> None))
         (users s) (map redact (users s))"
    by (simp add: list_all2_map2 list_all2_same redact_def)
  then show "\<exists>rs. fst (index_get s) = UserList rs \<and>
      list_all2 (\<lambda>u r. r_id r = user_id u \<and> r_email r = user_email u \<and> r_name r = user_name u \<and>
         r_emailVerified r = user_emailVerified u \<and> r_image r = (user_image u \<noteq> None)) (users s) rs"
    by (simp add: index_get_def findMany_def)
next
  show "snd (index_get s) = s"
    by (simp add: index_get_def)
next
  assume rel: "list_all2 same_but_image_path (users s) (users t)"
  have red: "redact u = redact v" if "same_but_image_path u v" for u v
    using that by (simp add: redact_def same_but_image_path_def)
  have "map redact (users s) = map redact (users t)"
    using rel by (induction rule: list_all2_induct) (auto simp: red)
  then show "fst (index_get s) = fst (index_get t)"
    by (simp add: index_get_def findMany_def)
qed

theorem index_get_redacts_witness:
  "fst (index_get server1) = fst (index_get (server1\<lparr>users := [u1\<lparr>user_image := Some ''elsewhere''\<rparr>, u2]\<rparr>)) \<and>
   fst (index_get server1) =
     UserList [\<lparr>r_id = ''u1'', r_email = ''u1@example.org'', r_name = ''Ada'', r_emailVerified = True, r_image = True\<rparr>,
               \<lparr>r_id = ''u2'', r_email = ''u2@example.org'', r_name = ''Bob'', r_emailVerified = False, r_image = False\<rparr>]"
proof -
  have r: "list_all2 same_but_image_path (users server1)
          (users (server1\<lparr>users := [u1\<lparr>user_image := Some ''elsewhere''\<rparr>, u2]\<rparr>))"
    by (simp add: server1_def same_but_image_path_def)
  note t = index_get_redacts [of server1 "server1\<lparr>users := [u1\<lparr>user_image := Some ''elsewhere''\<rparr>, u2]\<rparr>"]
  from conjunct2 [OF conjunct2 [OF t]] r
  have a: "fst (index_get server1) =
      fst (index_get (server1\<lparr>users := [u1\<lparr>user_image := Some ''elsewhere''\<rparr>, u2]\<rparr>))"
    by (rule mp)
  from conjunct1 [OF t] obtain rs where rs: "fst (index_get server1) = UserList rs"
    and l: "list_all2 (\<lambda>u r. r_id r = user_id u \<and> r_email r = user_email u \<and> r_name r = user_name u \<and>
         r_emailVerified r = user_emailVerified u \<and> r_image r = (user_image u \<noteq> None)) (users server1) rs"
    by blast
  from l have "rs = [\<lparr>r_id = ''u1'', r_email = ''u1@example.org'', r_name = ''Ada'', r_emailVerified = True, r_image = True\<rparr>,
               \<lparr>r_id = ''u2'', r_email = ''u2@example.org'', r_name = ''Bob'', r_emailVerified = False, r_image = False\<rparr>]"
    by (auto simp: server1_def u1_def u2_def list_all2_Cons1)
  with a rs show ?thesis
    by simp
qed

end
